theory Spec2Isabelle
  imports Complex_Main
begin

section \<open>JavaScript values\<close>

text \<open>
  The deal pipeline is TypeScript. A JavaScript \<open>number\<close> that the pipeline computes with
  (prices, discounts, scores, thresholds) is modelled as a \<open>real\<close>: the rounding of IEEE
  doubles is not modelled. Where the code has to cope with the special values (the
  numbers coerced out of an AI response), a number is a \<open>jsnum\<close>.

  A JavaScript string is a \<open>string\<close> whose characters are the code points 0..255.
\<close>

datatype jsnum = NaN | NegInf | Fin real | PosInf

text \<open>The values \<open>JSON.parse\<close> can return.\<close>

datatype json =
    JNull
  | JBool bool
  | JNum jsnum
  | JStr string
  | JArr "json list"
  | JObj "(string \<times> json) list"

subsection \<open>String helpers\<close>

definition isSpace :: "char \<Rightarrow> bool" where
  \<comment> \<open>\<open>\s\<close> and the characters \<open>trim()\<close> strips, among the code points 0..255\<close>
  "isSpace c = (of_char c \<in> {9, 10, 11, 12, 13, 32, 160 :: nat})"

definition isDigit :: "char \<Rightarrow> bool" where
  \<comment> \<open>\<open>\d\<close>\<close>
  "isDigit c = (48 \<le> (of_char c :: nat) \<and> (of_char c :: nat) \<le> 57)"

definition toLowerCaseChar :: "char \<Rightarrow> char" where
  "toLowerCaseChar c =
     (let n = (of_char c :: nat)
      in if (65 \<le> n \<and> n \<le> 90) \<or> (192 \<le> n \<and> n \<le> 214) \<or> (216 \<le> n \<and> n \<le> 222)
         then char_of (n + 32) else c)"

definition toLowerCase :: "string \<Rightarrow> string" where
  "toLowerCase s = map toLowerCaseChar s"

definition trim :: "string \<Rightarrow> string" where
  "trim s = rev (dropWhile isSpace (rev (dropWhile isSpace s)))"

definition startsWith :: "string \<Rightarrow> string \<Rightarrow> bool" where
  "startsWith s p = (take (length p) s = p)"

fun includesStr :: "string \<Rightarrow> string \<Rightarrow> bool" where
  "includesStr [] sub = (sub = [])"
| "includesStr (c # s) sub = (startsWith (c # s) sub \<or> includesStr s sub)"

subsection \<open>\<open>Buffer.from(key).toString('base64')\<close>\<close>

definition utf8 :: "string \<Rightarrow> nat list" where
  \<comment> \<open>UTF-8 of code points below 256: one byte below 128, two bytes from there on\<close>
  "utf8 s = concat (map (\<lambda>c. let n = (of_char c :: nat)
                             in if n < 128 then [n] else [192 + n div 64, 128 + n mod 64]) s)"

definition b64 :: "nat \<Rightarrow> char" where
  "b64 k = ''ABCDEFGHIJKLMNOPQRSTUVWXYZabcdefghijklmnopqrstuvwxyz0123456789+/'' ! k"

fun base64 :: "nat list \<Rightarrow> string" where
  "base64 [] = []"
| "base64 [a] = [b64 (a div 4), b64 ((a mod 4) * 16), CHR ''='', CHR ''='']"
| "base64 [a, b] =
     [b64 (a div 4), b64 ((a mod 4) * 16 + b div 16), b64 ((b mod 16) * 4), CHR ''='']"
| "base64 (a # b # c # bs) =
     [b64 (a div 4), b64 ((a mod 4) * 16 + b div 16), b64 ((b mod 16) * 4 + c div 64),
      b64 (c mod 64)] @ base64 bs"

section \<open>Deals\<close>

record Deal =
  title :: string
  originalPrice :: "real option"
  currentPrice :: real
  discountPercentage :: real
  url :: string
  image' :: "string option"
  site :: string
  availability :: string

datatype recommendation = HIGH | MEDIUM | LOW

record PricingAnalysisResult =
  isLegitimate :: bool
  confidenceScore :: real
  pricingGlitchProbability :: real
  analysis :: string
  suspiciousFactors :: "json list"
  recommendation :: recommendation

text \<open>
  The validation flags and the filtering reason are message strings in the source, some
  with numbers formatted into them. Each message is a constructor here, the formatted
  numbers its arguments:
  \<^item> \<open>NoValidOriginalPrice\<close>: "No valid original price provided"
  \<^item> \<open>InvalidCurrentPrice\<close>: "Invalid current price"
  \<^item> \<open>CurrentNotLower\<close>: "Current price is not lower than original price"
  \<^item> \<open>DiscountMismatch a r\<close>: "Discount mismatch: calculated a% vs reported r%"
  \<^item> \<open>ExtremelyHighDiscount\<close>: "Extremely high discount (>95%) - likely pricing glitch"
  \<^item> \<open>ReportedMuchHigher\<close>: "Reported discount much higher than calculated - suspicious"
  \<^item> \<open>PotentialPricingGlitch p\<close>: "Potential pricing glitch (p% probability)"
  \<^item> \<open>HighDiscountDeal d\<close>: "High discount deal (d% off)"
\<close>

datatype validationFlag =
    NoValidOriginalPrice
  | InvalidCurrentPrice
  | CurrentNotLower
  | DiscountMismatch real real
  | ExtremelyHighDiscount
  | ReportedMuchHigher

datatype filteringReason = PotentialPricingGlitch real | HighDiscountDeal real

record MathValidation =
  valid :: bool
  actualDiscount :: real
  flags :: "validationFlag list"

record FilteredDeal = Deal +
  confidenceScore' :: real
  pricingGlitchProbability' :: real
  filteringReason :: filteringReason
  validationFlags :: "validationFlag list"
  aiAnalysis :: string
  suspiciousFactors' :: "json list"
  recommendationLevel :: recommendation

section \<open>Regular expressions\<close>

text \<open>
  The patterns of the source are built from greedy repetitions of a character class,
  concatenation, capturing groups, a greedy optional group and a negative lookahead of one
  character. \<open>rmatch\<close> is the backtracking matcher of the ECMAScript semantics for them, in
  continuation-passing style: the continuation is the rest of the pattern, and a
  repetition hands it the longest run first, then shorter ones.
\<close>

datatype regex =
    Class "char \<Rightarrow> bool" nat "nat option"
  | Cat regex regex
  | Group regex
  | Opt regex
  | NotAhead "char \<Rightarrow> bool"

definition Lit :: "char \<Rightarrow> regex" where
  "Lit c = Class (\<lambda>x. x = c) 1 (Some 1)"

fun ngroups :: "regex \<Rightarrow> nat" where
  "ngroups (Class p lo hi) = 0"
| "ngroups (Cat a b) = ngroups a + ngroups b"
| "ngroups (Group a) = Suc (ngroups a)"
| "ngroups (Opt a) = ngroups a"
| "ngroups (NotAhead p) = 0"

fun tryDown :: "nat \<Rightarrow> nat \<Rightarrow> string \<Rightarrow> (string \<Rightarrow> 'r option) \<Rightarrow> 'r option" where
  "tryDown lo 0 s k = (if lo = 0 then k s else None)"
| "tryDown lo (Suc n) s k =
     (if Suc n < lo then None
      else case k (drop (Suc n) s) of Some r \<Rightarrow> Some r | None \<Rightarrow> tryDown lo n s k)"

fun rmatch ::
    "regex \<Rightarrow> string \<Rightarrow> string option list \<Rightarrow>
     (string \<Rightarrow> string option list \<Rightarrow> 'r option) \<Rightarrow> 'r option" where
  "rmatch (Class p lo hi) s cs k =
     (let run = length (takeWhile p s);
          n = (case hi of None \<Rightarrow> run | Some h \<Rightarrow> min h run)
      in tryDown lo n s (\<lambda>s'. k s' cs))"
| "rmatch (Cat a b) s cs k = rmatch a s cs (\<lambda>s' cs'. rmatch b s' cs' k)"
| "rmatch (Group a) s cs k =
     rmatch a s (cs @ [None])
       (\<lambda>s' cs'. k s' (cs'[length cs := Some (take (length s - length s') s)]))"
| "rmatch (Opt a) s cs k =
     (case rmatch a s cs k of
        Some r \<Rightarrow> Some r
      | None \<Rightarrow> k s (cs @ replicate (ngroups a) None))"
| "rmatch (NotAhead p) s cs k =
     (case s of [] \<Rightarrow> k s cs | c # _ \<Rightarrow> if p c then None else k s cs)"

text \<open>
  \<open>matchAt r s\<close>: the match of \<open>r\<close> at the start of \<open>s\<close>, as the matched text and the
  captures of the groups 1, 2, ... (\<open>None\<close> for \<open>undefined\<close>). \<open>regexMatch r s\<close> is
  \<open>s.match(r)\<close> for a pattern without the \<open>g\<close> flag: the match at the leftmost position
  that has one.
\<close>

definition matchAt :: "regex \<Rightarrow> string \<Rightarrow> (string \<times> string option list) option" where
  "matchAt r s = rmatch r s [] (\<lambda>s' cs. Some (take (length s - length s') s, cs))"

fun regexMatch :: "regex \<Rightarrow> string \<Rightarrow> (string \<times> string option list) option" where
  "regexMatch r [] = matchAt r []"
| "regexMatch r (c # s) =
     (case matchAt r (c # s) of Some m \<Rightarrow> Some m | None \<Rightarrow> regexMatch r s)"

definition group :: "string \<times> string option list \<Rightarrow> nat \<Rightarrow> string option" where
  \<comment> \<open>\<open>m[i]\<close> for \<open>i \<ge> 1\<close>\<close>
  "group m i = (if 1 \<le> i \<and> i \<le> length (snd m) then snd m ! (i - 1) else None)"

section \<open>DealFilteringService\<close>

subsection \<open>generateDealHash\<close>

text \<open>
  \<open>numToString\<close> is the runtime's conversion of a number to a string, which the template
  literal applies to \<open>deal.currentPrice\<close>.
\<close>

definition dealKey :: "(real \<Rightarrow> string) \<Rightarrow> 'a Deal_scheme \<Rightarrow> string" where
  "dealKey numToString deal =
     site deal @ ''-'' @ trim (toLowerCase (title deal)) @ ''-'' @ numToString (currentPrice deal)"

definition generateDealHash :: "(real \<Rightarrow> string) \<Rightarrow> 'a Deal_scheme \<Rightarrow> string" where
  "generateDealHash numToString deal = take 32 (base64 (utf8 (dealKey numToString deal)))"

subsection \<open>validateDiscountMath\<close>

definition validateDiscountMath :: "'a Deal_scheme \<Rightarrow> MathValidation" where
  "validateDiscountMath deal =
     (case originalPrice deal of
        None \<Rightarrow> \<lparr>valid = False, actualDiscount = 0, flags = [NoValidOriginalPrice]\<rparr>
      | Some original \<Rightarrow>
          if original = 0 \<or> original \<le> 0
          then \<lparr>valid = False, actualDiscount = 0, flags = [NoValidOriginalPrice]\<rparr>
          else if currentPrice deal \<le> 0
          then \<lparr>valid = False, actualDiscount = 0, flags = [InvalidCurrentPrice]\<rparr>
          else if currentPrice deal \<ge> original
          then \<lparr>valid = False, actualDiscount = 0, flags = [CurrentNotLower]\<rparr>
          else
            let actual = ((original - currentPrice deal) / original) * 100;
                discountDifference = \<bar>actual - discountPercentage deal\<bar>;
                flags1 = (if discountDifference > 5
                          then [DiscountMismatch actual (discountPercentage deal)] else []);
                flags2 = flags1 @ (if actual > 95 then [ExtremelyHighDiscount] else [])
            in if actual < 50 \<and> discountPercentage deal \<ge> 90
               then \<lparr>valid = False, actualDiscount = actual,
                      flags = flags2 @ [ReportedMuchHigher]\<rparr>
               else \<lparr>valid = (actual \<ge> 50), actualDiscount = actual, flags = flags2\<rparr>)"

subsection \<open>detectSuspiciousPricing\<close>

definition qualityBrands :: "string list" where
  "qualityBrands =
     [''apple'', ''samsung'', ''sony'', ''nike'', ''adidas'', ''louis vuitton'', ''gucci'', ''prada'']"

definition roundNumbers :: "real list" where
  "roundNumbers = [1/10, 1/2, 1, 5, 10, 20, 50]"

fun hasDigitRun :: "nat \<Rightarrow> string \<Rightarrow> bool" where
  \<comment> \<open>\<open>/\d{n,}/.test(s)\<close>: some n consecutive digits\<close>
  "hasDigitRun n [] = (n = 0)"
| "hasDigitRun n (c # s) =
     (n \<le> length (takeWhile isDigit (c # s)) \<or> hasDigitRun n s)"

definition detectSuspiciousPricing :: "'a Deal_scheme \<Rightarrow> string list" where
  "detectSuspiciousPricing deal =
     (let t = toLowerCase (title deal);
          hasQualityBrand = (\<exists>brand \<in> set qualityBrands. includesStr t brand)
      in (if currentPrice deal < 1 then [''Price under $1 - likely pricing error''] else [])
       @ (if currentPrice deal = 1/100 then [''Penny pricing - classic pricing glitch''] else [])
       @ (if currentPrice deal \<in> set roundNumbers
             \<and> (case originalPrice deal of None \<Rightarrow> False | Some p \<Rightarrow> p \<noteq> 0 \<and> p > 100)
          then [''Suspiciously round pricing for expensive item''] else [])
       @ (if hasQualityBrand \<and> currentPrice deal < 20
          then [''High-end brand at very low price - potential glitch''] else [])
       @ (if length t < 10 then [''Very short product title - possibly incomplete''] else [])
       @ (if hasDigitRun 10 t
          then [''Title contains long number sequences - possibly corrupted''] else [])
       @ (if includesStr (toLowerCase (availability deal)) ''limited'' \<and> discountPercentage deal > 90
          then [''Limited availability with extreme discount - possible error''] else []))"

subsection \<open>calculateOverallScore\<close>

definition Math_round :: "real \<Rightarrow> real" where
  \<comment> \<open>\<open>Math.round\<close>: the nearest integer, a tie going up\<close>
  "Math_round x = of_int \<lfloor>x + 1/2\<rfloor>"

definition rawScore :: "MathValidation \<Rightarrow> PricingAnalysisResult \<Rightarrow> string list \<Rightarrow> real" where
  \<comment> \<open>the variable \<open>score\<close> when \<open>calculateOverallScore\<close> reaches its \<open>return\<close>\<close>
  "rawScore mathValidation ai factors =
     (let score0 = 50;
          score1 = (if valid mathValidation
                    then score0 + min 30 (actualDiscount mathValidation * (3/10))
                    else score0 - 20);
          aiScore = (confidenceScore ai / 100) * 40;
          score2 = score1 + aiScore;
          suspicionPenalty = min 30 (real (length factors) * 5);
          score3 = score2 - suspicionPenalty
      in if pricingGlitchProbability ai > 70 then score3 + 20 else score3)"

definition calculateOverallScore ::
    "MathValidation \<Rightarrow> PricingAnalysisResult \<Rightarrow> string list \<Rightarrow> real" where
  "calculateOverallScore mathValidation ai factors =
     max 0 (min 100 (Math_round (rawScore mathValidation ai factors)))"

subsection \<open>The runtime and the AI providers\<close>

text \<open>
  What the service takes from outside its own code is a parameter of the model:
  \<^item> \<open>numToString\<close>: the conversion of a number to a string;
  \<^item> \<open>JSON_parse\<close>: \<open>JSON.parse\<close>, \<open>None\<close> when it throws a SyntaxError;
  \<^item> \<open>ToNumber\<close>: \<open>Number(v)\<close> for a string, an array or an object \<open>v\<close>, \<open>None\<close> when the
    conversion throws;
  \<^item> \<open>ToString\<close>: \<open>String(v)\<close> for a value \<open>v\<close> that is not a string, \<open>None\<close> when the
    conversion throws;
  \<^item> \<open>perplexity\<close>, \<open>openai\<close>: the text \<open>generateText\<close> returns for the prompt built from
    a deal, \<open>None\<close> when the call fails.
\<close>

record env =
  numToString :: "real \<Rightarrow> string"
  JSON_parse :: "string \<Rightarrow> json option"
  ToNumber :: "json \<Rightarrow> jsnum option"
  ToString :: "json \<Rightarrow> string option"
  perplexity :: "Deal \<Rightarrow> string option"
  openai :: "Deal \<Rightarrow> string option"

datatype error = ProviderError | ParseError

subsection \<open>parseAIResponse\<close>

definition jsonObjectRe :: regex where
  \<comment> \<open>\<open>/\{[\s\S]*\}/\<close>\<close>
  "jsonObjectRe = Cat (Lit (CHR ''{'')) (Cat (Class (\<lambda>c. True) 0 None) (Lit (CHR ''}'')))"

definition jsonStr :: "string \<Rightarrow> string" where
  \<comment> \<open>\<open>jsonMatch ? jsonMatch[0] : text\<close>\<close>
  "jsonStr text = (case regexMatch jsonObjectRe text of None \<Rightarrow> text | Some m \<Rightarrow> fst m)"

fun getProp :: "json \<Rightarrow> string \<Rightarrow> json option" where
  \<comment> \<open>\<open>v.name\<close> for a value that is not \<open>null\<close> and one of the six names
      \<open>parseAIResponse\<close> reads; \<open>None\<close> is \<open>undefined\<close>\<close>
  "getProp (JObj kvs) name = map_of kvs name"
| "getProp v name = None"

fun truthy :: "json \<Rightarrow> bool" where
  "truthy JNull = False"
| "truthy (JBool b) = b"
| "truthy (JNum n) = (n \<noteq> NaN \<and> n \<noteq> Fin 0)"
| "truthy (JStr s) = (s \<noteq> [])"
| "truthy (JArr vs) = True"
| "truthy (JObj kvs) = True"

definition Boolean_js :: "json option \<Rightarrow> bool" where
  "Boolean_js v = (case v of None \<Rightarrow> False | Some w \<Rightarrow> truthy w)"

definition Number_js :: "env \<Rightarrow> json option \<Rightarrow> jsnum option" where
  "Number_js env v =
     (case v of
        None \<Rightarrow> Some NaN
      | Some JNull \<Rightarrow> Some (Fin 0)
      | Some (JBool b) \<Rightarrow> Some (Fin (if b then 1 else 0))
      | Some (JNum n) \<Rightarrow> Some n
      | Some w \<Rightarrow> ToNumber env w)"

definition String_js :: "env \<Rightarrow> json \<Rightarrow> string option" where
  "String_js env v = (case v of JStr s \<Rightarrow> Some s | w \<Rightarrow> ToString env w)"

definition clampOrDefault :: "jsnum \<Rightarrow> real \<Rightarrow> real" where
  \<comment> \<open>\<open>Math.max(0, Math.min(100, n || d))\<close>\<close>
  "clampOrDefault n d =
     (case (if n = NaN \<or> n = Fin 0 then Fin d else n) of
        Fin r \<Rightarrow> max 0 (min 100 r)
      | PosInf \<Rightarrow> 100
      | NegInf \<Rightarrow> 0
      | NaN \<Rightarrow> 0)"

definition parseAIResponse :: "env \<Rightarrow> string \<Rightarrow> error + PricingAnalysisResult" where
  "parseAIResponse env text =
     (case JSON_parse env (jsonStr text) of
        None \<Rightarrow> Inl ParseError
      | Some parsedResponse \<Rightarrow>
          if parsedResponse = JNull then Inl ParseError
          else
            (case (Number_js env (getProp parsedResponse ''confidenceScore''),
                   Number_js env (getProp parsedResponse ''pricingGlitchProbability''),
                   (case getProp parsedResponse ''analysis'' of
                      None \<Rightarrow> Some ''No analysis provided''
                    | Some a \<Rightarrow> if truthy a then String_js env a
                               else Some ''No analysis provided'')) of
               (Some c, Some g, Some a) \<Rightarrow>
                 Inr \<lparr>isLegitimate = Boolean_js (getProp parsedResponse ''isLegitimate''),
                      confidenceScore = clampOrDefault c 50,
                      pricingGlitchProbability = clampOrDefault g 0,
                      analysis = a,
                      suspiciousFactors =
                        (case getProp parsedResponse ''suspiciousFactors'' of
                           Some (JArr vs) \<Rightarrow> vs | _ \<Rightarrow> []),
                      recommendation =
                        (case getProp parsedResponse ''recommendation'' of
                           Some (JStr r) \<Rightarrow>
                             if r = ''HIGH'' then HIGH else if r = ''LOW'' then LOW else MEDIUM
                         | _ \<Rightarrow> MEDIUM)\<rparr>
             | _ \<Rightarrow> Inl ParseError))"

subsection \<open>analyzeWithAI\<close>

definition analyzeWithAI :: "env \<Rightarrow> Deal \<Rightarrow> error + PricingAnalysisResult" where
  "analyzeWithAI env deal =
     (case (case perplexity env deal of
              None \<Rightarrow> Inl ProviderError
            | Some text \<Rightarrow> parseAIResponse env text) of
        Inr r \<Rightarrow> Inr r
      | Inl perplexityError \<Rightarrow>
          (case openai env deal of
             None \<Rightarrow> Inl ProviderError
           | Some text \<Rightarrow> parseAIResponse env text))"

subsection \<open>filterDeals\<close>

text \<open>
  \<open>processDeal\<close> is the body of the loop over \<open>deals\<close>: it returns the deal pushed on
  \<open>filteredDeals\<close>, if any, and the set \<open>seenDeals\<close> as the iteration leaves it. An error
  of \<open>analyzeWithAI\<close> is caught by the body's \<open>catch\<close>, which logs it and goes on.
\<close>

definition processDeal ::
    "env \<Rightarrow> real \<Rightarrow> real \<Rightarrow> string set \<Rightarrow> Deal \<Rightarrow> FilteredDeal option \<times> string set" where
  "processDeal env minDiscountPercentage minConfidenceScore seenDeals deal =
     (let dealHash = generateDealHash (numToString env) deal
      in if dealHash \<in> seenDeals then (None, seenDeals)
         else
           let seenDeals' = insert dealHash seenDeals;
               mathValidation = validateDiscountMath deal
           in if \<not> valid mathValidation \<and> actualDiscount mathValidation < 50
              then (None, seenDeals')
              else
                (case analyzeWithAI env deal of
                   Inl e \<Rightarrow> (None, seenDeals')
                 | Inr ai \<Rightarrow>
                     let factors = detectSuspiciousPricing deal;
                         score = calculateOverallScore mathValidation ai factors;
                         qualifiesAsHighDiscount =
                           (actualDiscount mathValidation \<ge> minDiscountPercentage);
                         qualifiesAsPricingGlitch = (pricingGlitchProbability ai \<ge> 70);
                         meetsConfidenceThreshold = (score \<ge> minConfidenceScore)
                     in if (qualifiesAsHighDiscount \<or> qualifiesAsPricingGlitch)
                           \<and> meetsConfidenceThreshold
                        then
                          (Some (Deal.extend deal
                             (FilteredDeal.fields score (pricingGlitchProbability ai)
                                (if qualifiesAsPricingGlitch
                                 then PotentialPricingGlitch (pricingGlitchProbability ai)
                                 else HighDiscountDeal (actualDiscount mathValidation))
                                (flags mathValidation) (analysis ai)
                                (map JStr factors @ suspiciousFactors ai)
                                (recommendation ai))),
                           seenDeals')
                        else (None, seenDeals')))"

fun filterLoop ::
    "env \<Rightarrow> real \<Rightarrow> real \<Rightarrow> FilteredDeal list \<Rightarrow> string set \<Rightarrow> Deal list \<Rightarrow>
     FilteredDeal list \<times> string set" where
  "filterLoop env minD minC filteredDeals seenDeals [] = (filteredDeals, seenDeals)"
| "filterLoop env minD minC filteredDeals seenDeals (deal # rest) =
     (case processDeal env minD minC seenDeals deal of
        (None, seenDeals') \<Rightarrow> filterLoop env minD minC filteredDeals seenDeals' rest
      | (Some filteredDeal, seenDeals') \<Rightarrow>
          filterLoop env minD minC (filteredDeals @ [filteredDeal]) seenDeals' rest)"

definition sortScore :: "FilteredDeal \<Rightarrow> real" where
  "sortScore d = confidenceScore' d + pricingGlitchProbability' d * (1/2)"

definition sortDeals :: "FilteredDeal list \<Rightarrow> FilteredDeal list" where
  \<comment> \<open>\<open>filteredDeals.sort((a, b) => scoreB - scoreA)\<close>: a stable sort, the greater score
      first\<close>
  "sortDeals ds = sort_key (\<lambda>d. - sortScore d) ds"

definition slice0 :: "'a list \<Rightarrow> real \<Rightarrow> 'a list" where
  \<comment> \<open>\<open>xs.slice(0, n)\<close>: \<open>n\<close> is truncated to an integer, and a negative \<open>n\<close> counts from
      the end\<close>
  "slice0 xs n =
     (let k = (if n \<ge> 0 then \<lfloor>n\<rfloor> else \<lceil>n\<rceil>)
      in if k \<ge> 0 then take (nat k) xs else take (length xs - nat (- k)) xs)"

text \<open>
  \<open>filterDeals\<close> returns \<open>finalResults\<close> and the service's \<open>seenDeals\<close> after the run; the
  set it starts from is the service's \<open>seenDeals\<close> before it.
\<close>

definition filterDeals ::
    "env \<Rightarrow> string set \<Rightarrow> Deal list \<Rightarrow> real \<Rightarrow> real \<Rightarrow> real \<Rightarrow>
     FilteredDeal list \<times> string set" where
  "filterDeals env seenDeals deals minDiscountPercentage minConfidenceScore maxResults =
     (case filterLoop env minDiscountPercentage minConfidenceScore [] seenDeals deals of
        (filteredDeals, seenDeals') \<Rightarrow>
          (slice0 (sortDeals filteredDeals) maxResults, seenDeals'))"

subsection \<open>The run without its state\<close>

text \<open>
  Two notions to state what a run of \<open>filterDeals\<close> computes. \<open>freshDeals h seen ds\<close> are
  the deals of \<open>ds\<close> that pass the duplicate check, in order: those whose hash is neither
  in \<open>seen\<close> nor the hash of an earlier deal of \<open>ds\<close>. \<open>decision\<close> is what the loop body
  pushes for a deal that passes the duplicate check.
\<close>

fun freshDeals :: "(Deal \<Rightarrow> string) \<Rightarrow> string set \<Rightarrow> Deal list \<Rightarrow> Deal list" where
  "freshDeals h seen [] = []"
| "freshDeals h seen (d # ds) =
     (if h d \<in> seen then freshDeals h seen ds else d # freshDeals h (insert (h d) seen) ds)"

definition decision :: "env \<Rightarrow> real \<Rightarrow> real \<Rightarrow> Deal \<Rightarrow> FilteredDeal option" where
  "decision env minD minC deal = fst (processDeal env minD minC {} deal)"

subsection \<open>An example runtime\<close>

text \<open>
  The runtime of the examples: numbers with at most two decimals print as JavaScript
  prints them, the first AI provider answers every prompt with the text \<open>answer\<close>, which
  \<open>JSON.parse\<close> reads as the value \<open>v\<close> (it fails on any other text the examples hand
  to it, none of which is valid JSON), and the second provider fails. The examples
  never convert a string, an array or an object to a number or to a string.
\<close>

function natToString :: "nat \<Rightarrow> string" where
  "natToString n =
     (if n < 10 then [char_of (48 + n)] else natToString (n div 10) @ [char_of (48 + n mod 10)])"
  by pat_completeness auto
termination
  by (relation "measure id") auto

definition centsToString :: "real \<Rightarrow> string" where
  "centsToString x =
     (let c = nat \<lfloor>x * 100 + 1/2\<rfloor>; r = c mod 100
      in natToString (c div 100)
         @ (if r = 0 then []
            else ''.'' @ [char_of (48 + r div 10)]
                 @ (if r mod 10 = 0 then [] else [char_of (48 + r mod 10)])))"

definition exampleEnv :: "string \<Rightarrow> json \<Rightarrow> env" where
  "exampleEnv answer v =
     \<lparr>numToString = centsToString,
      JSON_parse = (\<lambda>s. if s = answer then Some v else None),
      ToNumber = (\<lambda>w. Some NaN),
      ToString = (\<lambda>w. Some ''[object Object]''),
      perplexity = (\<lambda>deal. Some answer),
      openai = (\<lambda>deal. None)\<rparr>"

definition glitchAnswer :: string where
  \<open>glitchAnswer =
     ''{"isLegitimate": true, "confidenceScore": 100, "pricingGlitchProbability": 75, "analysis": "Likely a pricing error", "suspiciousFactors": [], "recommendation": "HIGH"}''\<close>

definition glitchVerdict :: json where
  "glitchVerdict =
     JObj [(''isLegitimate'', JBool True), (''confidenceScore'', JNum (Fin 100)),
           (''pricingGlitchProbability'', JNum (Fin 75)),
           (''analysis'', JStr ''Likely a pricing error''),
           (''suspiciousFactors'', JArr []), (''recommendation'', JStr ''HIGH'')]"

definition exampleDeal :: "string \<Rightarrow> real option \<Rightarrow> real \<Rightarrow> real \<Rightarrow> Deal" where
  "exampleDeal t original current reported =
     \<lparr>title = t, originalPrice = original, currentPrice = current,
      discountPercentage = reported, url = ''https://www.amazon.com/dp/1'',
      image' = None, site = ''Amazon'', availability = ''In Stock''\<rparr>"

section \<open>Site profiles: the price parser\<close>

definition removeCommasDollars :: "string \<Rightarrow> string" where
  \<comment> \<open>\<open>.replace(/[,$]/g, '')\<close>\<close>
  "removeCommasDollars s = filter (\<lambda>c. c \<noteq> CHR '','' \<and> c \<noteq> CHR ''$'') s"

function collapseWhitespace :: "string \<Rightarrow> string" where
  \<comment> \<open>\<open>.replace(/\s+/g, ' ')\<close>\<close>
  "collapseWhitespace [] = []"
| "collapseWhitespace (c # s) =
     (if isSpace c then CHR '' '' # collapseWhitespace (dropWhile isSpace s)
      else c # collapseWhitespace s)"
  by pat_completeness auto
termination
  by (relation "measure length") (auto simp: length_dropWhile_le less_Suc_eq_le)

definition digitsToNat :: "string \<Rightarrow> nat" where
  "digitsToNat ds = foldl (\<lambda>n c. 10 * n + (of_char c - 48)) 0 ds"

definition parseInt :: "string \<Rightarrow> nat option" where
  \<comment> \<open>\<open>parseInt\<close> on text that holds decimal digits only; \<open>None\<close> is \<open>NaN\<close>\<close>
  "parseInt s =
     (let ds = takeWhile isDigit s in if ds = [] then None else Some (digitsToNat ds))"

definition parseFloat :: "string \<Rightarrow> real option" where
  \<comment> \<open>\<open>parseFloat\<close> on text that holds decimal digits and dots only: the longest prefix
      \<open>digits\<close>, \<open>digits.\<close>, \<open>digits.digits\<close> or \<open>.digits\<close>; \<open>None\<close> is \<open>NaN\<close>\<close>
  "parseFloat s =
     (let ip = takeWhile isDigit s;
          rest = drop (length ip) s;
          fp = (case rest of [] \<Rightarrow> [] | c # r \<Rightarrow> if c = CHR ''.'' then takeWhile isDigit r else [])
      in if ip = [] \<and> fp = [] then None
         else Some (real (digitsToNat ip) + real (digitsToNat fp) / 10 ^ length fp))"

definition padEnd2 :: "string \<Rightarrow> string" where
  \<comment> \<open>\<open>.padEnd(2, '0')\<close>\<close>
  "padEnd2 s = s @ replicate (2 - length s) (CHR ''0'')"

definition dollarsAndCentsRe :: regex where
  \<comment> \<open>\<open>/(\d+)\s*(\d{2})(?!\d)/\<close>\<close>
  "dollarsAndCentsRe =
     Cat (Group (Class isDigit 1 None))
       (Cat (Class isSpace 0 None)
         (Cat (Group (Class isDigit 2 (Some 2))) (NotAhead isDigit)))"

definition amountRe :: regex where
  \<comment> \<open>\<open>\d+\.?\d{0,2}\<close>\<close>
  "amountRe =
     Cat (Class isDigit 1 None)
       (Cat (Class (\<lambda>c. c = CHR ''.'') 0 (Some 1)) (Class isDigit 0 (Some 2)))"

definition rangeRe :: regex where
  \<comment> \<open>\<open>/(\d+\.?\d{0,2})\s*-\s*(\d+\.?\d{0,2})/\<close>\<close>
  "rangeRe =
     Cat (Group amountRe)
       (Cat (Class isSpace 0 None)
         (Cat (Lit (CHR ''-'')) (Cat (Class isSpace 0 None) (Group amountRe))))"

definition priceRe :: regex where
  \<comment> \<open>\<open>/(\d+)(?:\.(\d{1,2}))?/\<close>\<close>
  "priceRe =
     Cat (Group (Class isDigit 1 None))
       (Opt (Cat (Lit (CHR ''.'')) (Group (Class isDigit 1 (Some 2)))))"

definition priceParser :: "string \<Rightarrow> real option" where
  \<comment> \<open>the \<open>priceParser\<close> of every entry of \<open>SITE_CONFIGS\<close> (the five are the same
      function); \<open>None\<close> is \<open>null\<close>\<close>
  "priceParser text =
     (let cleanText = trim (collapseWhitespace (removeCommasDollars text));
          standard =
            (case regexMatch priceRe cleanText of
               None \<Rightarrow> None
             | Some priceMatch \<Rightarrow>
                 (case group priceMatch 1 of
                    None \<Rightarrow> None
                  | Some g1 \<Rightarrow>
                      (case parseInt g1 of
                         None \<Rightarrow> None
                       | Some dollars \<Rightarrow>
                           let cents =
                             (case group priceMatch 2 of
                                None \<Rightarrow> 0
                              | Some g2 \<Rightarrow>
                                  if g2 = [] then 0
                                  else (case parseInt (padEnd2 g2) of None \<Rightarrow> 0 | Some n \<Rightarrow> n))
                           in Some (real dollars + real cents / 100))));
          range =
            (case regexMatch rangeRe cleanText of
               None \<Rightarrow> standard
             | Some rangeMatch \<Rightarrow>
                 (case group rangeMatch 1 of None \<Rightarrow> None | Some lower \<Rightarrow> parseFloat lower))
      in case regexMatch dollarsAndCentsRe cleanText of
           None \<Rightarrow> range
         | Some dollarsAndCents \<Rightarrow>
             (case (group dollarsAndCents 1, group dollarsAndCents 2) of
                (Some d, Some c) \<Rightarrow>
                  if length c = 2 then parseFloat (d @ ''.'' @ c) else range
              | _ \<Rightarrow> range))"

section \<open>Extraction and normalization\<close>

record SiteConfig =
  name :: string
  baseUrl :: string
  requiresJS :: bool
  hasOriginalPriceSelector :: bool
  hasAvailabilitySelector :: bool
  sitePriceParser :: "string \<Rightarrow> real option"



definition SITE_CONFIGS :: "SiteConfig list" where
  "SITE_CONFIGS =
     [\<lparr>name = ''Amazon'', baseUrl = ''https://www.amazon.com'', requiresJS = True,
        hasOriginalPriceSelector = True, hasAvailabilitySelector = True,
        sitePriceParser = priceParser\<rparr>,
      \<lparr>name = ''eBay'', baseUrl = ''https://www.ebay.com'', requiresJS = False,
        hasOriginalPriceSelector = True, hasAvailabilitySelector = False,
        sitePriceParser = priceParser\<rparr>,
      \<lparr>name = ''Walmart'', baseUrl = ''https://www.walmart.com'', requiresJS = True,
        hasOriginalPriceSelector = True, hasAvailabilitySelector = False,
        sitePriceParser = priceParser\<rparr>,
      \<lparr>name = ''Best Buy'', baseUrl = ''https://www.bestbuy.com'', requiresJS = True,
        hasOriginalPriceSelector = True, hasAvailabilitySelector = False,
        sitePriceParser = priceParser\<rparr>,
      \<lparr>name = ''Target'', baseUrl = ''https://www.target.com'', requiresJS = True,
        hasOriginalPriceSelector = True, hasAvailabilitySelector = True,
        sitePriceParser = priceParser\<rparr>]"







subsection \<open>scrapeWithPuppeteer\<close>




subsection \<open>scrapeWithCheerio\<close>




subsection \<open>An example page\<close>



subsection \<open>The extraction the specification describes\<close>



subsection \<open>Example answers of an AI provider\<close>







section \<open>Properties of the math validator\<close>

lemma validateDiscountMath_example:
  "validateDiscountMath
      \<lparr>title = ''Desk lamp'', originalPrice = Some 100, currentPrice = 40,
       discountPercentage = 90, url = ''u'', image' = None, site = ''Amazon'',
       availability = ''Unknown''\<rparr>
   = \<lparr>valid = True, actualDiscount = 60, flags = [DiscountMismatch 60 90]\<rparr>"
  by (simp add: validateDiscountMath_def Let_def)





section \<open>Properties of the score\<close>



section \<open>Properties of the price parser\<close>

lemma SITE_CONFIGS_priceParser:
  "map sitePriceParser SITE_CONFIGS = replicate 5 priceParser"
  by (simp add: SITE_CONFIGS_def numeral_eq_Suc)

lemma priceParser_split_tokens: "priceParser ''99 99'' = Some (9999 / 100)"
  by code_simp

lemma priceParser_range: "priceParser ''$10 - $20'' = Some 10"
  by code_simp

lemma priceParser_missing_cents: "priceParser ''50'' = Some 50"
  by code_simp

lemma priceParser_two_digit_dollars: "priceParser ''$19.99'' = Some (1999 / 100)"
  by code_simp

lemma priceParser_unparseable: "priceParser ''Call for price'' = None"
  by code_simp

text \<open>
  C5. The parser returns 12.99 for \<open>$1,299.99\<close>, not 1299.99: once the comma and the
  dollar sign are removed, the pattern for separate dollar and cent elements,
  \<open>(\d+)\s*(\d{2})(?!\d)\<close>, matches \<open>1299\<close> as the dollars \<open>12\<close> and the cents \<open>99\<close>, the
  white space between them being optional, and the parser returns before it tries the
  pattern for a standard price. The other vectors of the claim hold (the lemmas above).
\<close>

theorem priceParser_thousands_separator:
  "priceParser ''$1,299.99'' = Some (1299 / 100)"
  by code_simp

section \<open>Properties of the extraction\<close>





lemma map_filter_mem:
  "y \<in> set (List.map_filter f xs) \<longleftrightarrow> (\<exists>x \<in> set xs. f x = Some y)"
  by (induction xs) (auto split: option.splits)



section \<open>Properties of the filtering run\<close>

lemma valid_iff_half:
  "valid (validateDiscountMath d) \<longleftrightarrow> 50 \<le> actualDiscount (validateDiscountMath d)"
  by (auto simp: validateDiscountMath_def Let_def split: option.splits)


lemma generateDealHash_truncate:
  "generateDealHash f (Deal.truncate fd) = generateDealHash f fd"
  by (simp add: generateDealHash_def dealKey_def Deal.defs)

lemma truncate_extend: "Deal.truncate (Deal.extend d x) = d"
  by (simp add: Deal.defs)

lemma processDeal_seen:
  "generateDealHash (numToString env) d \<in> seen \<Longrightarrow>
   processDeal env minD minC seen d = (None, seen)"
  by (simp add: processDeal_def)

lemma processDeal_snd:
  "snd (processDeal env minD minC seen d) = insert (generateDealHash (numToString env) d) seen"
  by (auto simp: processDeal_def Let_def insert_absorb split: sum.splits)

lemma processDeal_fresh:
  "generateDealHash (numToString env) d \<notin> seen \<Longrightarrow>
   fst (processDeal env minD minC seen d) = decision env minD minC d"
  by (auto simp: processDeal_def decision_def Let_def split: sum.splits)

lemma decision_Some_iff:
  "decision env minD minC d = Some fd \<longleftrightarrow>
     valid (validateDiscountMath d)
     \<and> (\<exists>ai. analyzeWithAI env d = Inr ai
           \<and> (minD \<le> actualDiscount (validateDiscountMath d) \<or> 70 \<le> pricingGlitchProbability ai)
           \<and> minC \<le> calculateOverallScore (validateDiscountMath d) ai (detectSuspiciousPricing d)
           \<and> fd = Deal.extend d
                (FilteredDeal.fields
                   (calculateOverallScore (validateDiscountMath d) ai (detectSuspiciousPricing d))
                   (pricingGlitchProbability ai)
                   (if 70 \<le> pricingGlitchProbability ai
                    then PotentialPricingGlitch (pricingGlitchProbability ai)
                    else HighDiscountDeal (actualDiscount (validateDiscountMath d)))
                   (flags (validateDiscountMath d)) (analysis ai)
                   (map JStr (detectSuspiciousPricing d) @ suspiciousFactors ai)
                   (recommendation ai)))"
  using valid_iff_half[of d]
  by (auto simp: decision_def processDeal_def Let_def split: sum.splits)

lemma filterLoop_acc:
  "filterLoop env minD minC acc seen ds =
     (acc @ fst (filterLoop env minD minC [] seen ds), snd (filterLoop env minD minC [] seen ds))"
proof (induction ds arbitrary: acc seen)
  case Nil
  then show ?case by simp
next
  case (Cons d ds)
  show ?case
  proof (cases "processDeal env minD minC seen d")
    case (Pair r seen')
    show ?thesis
    proof (cases r)
      case None
      with Pair Cons.IH[of acc seen'] show ?thesis by simp
    next
      case (Some fd)
      with Pair Cons.IH[of "acc @ [fd]" seen'] Cons.IH[of "[fd]" seen'] show ?thesis by simp
    qed
  qed
qed

lemma filterLoop_snd:
  "snd (filterLoop env minD minC acc seen ds) =
     seen \<union> generateDealHash (numToString env) ` set ds"
proof (induction ds arbitrary: acc seen)
  case Nil
  then show ?case by simp
next
  case (Cons d ds)
  obtain r seen' where p: "processDeal env minD minC seen d = (r, seen')"
    by (cases "processDeal env minD minC seen d")
  with processDeal_snd[of env minD minC seen d]
  have s: "seen' = insert (generateDealHash (numToString env) d) seen" by simp
  show ?case using p s Cons.IH by (cases r) auto
qed

lemma filterLoop_fst:
  "fst (filterLoop env minD minC [] seen ds) =
     List.map_filter (decision env minD minC)
       (freshDeals (generateDealHash (numToString env)) seen ds)"
proof (induction ds arbitrary: seen)
  case Nil
  then show ?case by simp
next
  case (Cons d ds)
  show ?case
  proof (cases "generateDealHash (numToString env) d \<in> seen")
    case True
    with processDeal_seen[OF True, of minD minC] Cons.IH[of seen] show ?thesis by simp
  next
    case False
    obtain r seen' where p: "processDeal env minD minC seen d = (r, seen')"
      by (cases "processDeal env minD minC seen d")
    with processDeal_snd[of env minD minC seen d] processDeal_fresh[OF False, of minD minC]
    have s: "seen' = insert (generateDealHash (numToString env) d) seen"
      and r: "r = decision env minD minC d" by simp_all
    show ?thesis
    proof (cases r)
      case None
      with p s r False Cons.IH[of seen'] show ?thesis by simp
    next
      case (Some fd)
      with r have dec: "decision env minD minC d = Some fd" by simp
      from p Some have p': "processDeal env minD minC seen d = (Some fd, seen')" by simp
      have "fst (filterLoop env minD minC [] seen (d # ds)) =
              fd # fst (filterLoop env minD minC [] seen' ds)"
        using p' filterLoop_acc[of env minD minC "[fd]" seen' ds] by simp
      with dec s False Cons.IH[of seen'] show ?thesis by simp
    qed
  qed
qed

lemma slice0_take: "\<exists>k. slice0 xs n = take k xs"
  by (auto simp: slice0_def Let_def)




lemma freshDeals_subset: "set (freshDeals h seen ds) \<subseteq> set ds"
  by (induction ds arbitrary: seen) auto

lemma freshDeals_unseen: "d \<in> set (freshDeals h seen ds) \<Longrightarrow> h d \<notin> seen"
  by (induction ds arbitrary: seen) (auto split: if_splits)

lemma freshDeals_distinct: "distinct (map h (freshDeals h seen ds))"
proof (induction ds arbitrary: seen)
  case Nil
  then show ?case by simp
next
  case (Cons d ds)
  have "h d \<notin> h ` set (freshDeals h (insert (h d) seen) ds)"
  proof
    assume "h d \<in> h ` set (freshDeals h (insert (h d) seen) ds)"
    then obtain x where x: "x \<in> set (freshDeals h (insert (h d) seen) ds)" and e: "h d = h x"
      by blast
    from freshDeals_unseen[OF x] have "h x \<noteq> h d" by simp
    with e show False by simp
  qed
  with Cons.IH show ?case by simp
qed


lemma filterDeals_fst:
  "fst (filterDeals env seen deals minD minC maxR) =
     slice0 (sortDeals (List.map_filter (decision env minD minC)
       (freshDeals (generateDealHash (numToString env)) seen deals))) maxR"
proof -
  obtain fds seen' where l: "filterLoop env minD minC [] seen deals = (fds, seen')"
    by (cases "filterLoop env minD minC [] seen deals")
  with filterLoop_fst[of env minD minC seen deals]
  show ?thesis by (simp add: filterDeals_def)
qed

lemma filterDeals_snd:
  "snd (filterDeals env seen deals minD minC maxR) =
     seen \<union> generateDealHash (numToString env) ` set deals"
proof -
  obtain fds seen' where l: "filterLoop env minD minC [] seen deals = (fds, seen')"
    by (cases "filterLoop env minD minC [] seen deals")
  with filterLoop_snd[of env minD minC "[]" seen deals]
  show ?thesis by (simp add: filterDeals_def)
qed


lemma filterDeals_mem:
  assumes "fd \<in> set (fst (filterDeals env seen deals minD minC maxR))"
  shows "\<exists>d \<in> set deals. generateDealHash (numToString env) d \<notin> seen
            \<and> decision env minD minC d = Some fd"
proof -
  obtain k where "slice0 (sortDeals (List.map_filter (decision env minD minC)
       (freshDeals (generateDealHash (numToString env)) seen deals))) maxR
     = take k (sortDeals (List.map_filter (decision env minD minC)
       (freshDeals (generateDealHash (numToString env)) seen deals)))"
    using slice0_take by blast
  with assms have "fd \<in> set (sortDeals (List.map_filter (decision env minD minC)
       (freshDeals (generateDealHash (numToString env)) seen deals)))"
    by (auto simp: filterDeals_fst dest: in_set_takeD)
  then obtain d where d: "d \<in> set (freshDeals (generateDealHash (numToString env)) seen deals)"
    and fd: "decision env minD minC d = Some fd"
    by (auto simp: sortDeals_def map_filter_mem)
  from d freshDeals_subset[of "generateDealHash (numToString env)" seen deals]
    freshDeals_unseen[OF d] fd
  show ?thesis by blast
qed






section \<open>Properties of the glitch path\<close>

lemma decision_truncate:
  assumes "decision env minD minC d = Some fd"
  shows "Deal.truncate fd = d"
proof -
  from assms obtain x where "fd = Deal.extend d x"
    unfolding decision_Some_iff by blast
  then show ?thesis by (simp add: truncate_extend)
qed









section \<open>Properties of the deduplication\<close>

lemma base64_prefix:
  "take (4 * n) (base64 bs) = take (4 * n) (base64 (take (3 * n) bs))"
proof (induction n arbitrary: bs)
  case 0
  then show ?case by simp
next
  case (Suc n)
  show ?case
  proof (cases bs rule: base64.cases)
    case 1
    then show ?thesis by simp
  next
    case (2 a)
    then show ?thesis by simp
  next
    case (3 a b)
    then show ?thesis by simp
  next
    case (4 a b c r)
    have e4: "4 * Suc n = Suc (Suc (Suc (Suc (4 * n))))"
      and e3: "3 * Suc n = Suc (Suc (Suc (3 * n)))" by simp_all
    have "take (4 * Suc n) (base64 bs)
            = [b64 (a div 4), b64 ((a mod 4) * 16 + b div 16),
               b64 ((b mod 16) * 4 + c div 64), b64 (c mod 64)] @ take (4 * n) (base64 r)"
      unfolding e4 using 4 by simp
    also have "take (4 * n) (base64 r) = take (4 * n) (base64 (take (3 * n) r))"
      by (rule Suc.IH)
    also have "[b64 (a div 4), b64 ((a mod 4) * 16 + b div 16),
               b64 ((b mod 16) * 4 + c div 64), b64 (c mod 64)]
               @ take (4 * n) (base64 (take (3 * n) r))
            = take (4 * Suc n) (base64 (take (3 * Suc n) bs))"
      unfolding e4 e3 using 4 by simp
    finally show ?thesis .
  qed
qed

lemma generateDealHash_prefix:
  "generateDealHash f d = take 32 (base64 (take 24 (utf8 (dealKey f d))))"
  using base64_prefix[of 8 "utf8 (dealKey f d)"] by (simp add: generateDealHash_def)

lemma distinct_map_filter:
  assumes "\<And>x y. x \<in> set xs \<Longrightarrow> f x = Some y \<Longrightarrow> g y = h x"
    and "distinct (map h xs)"
  shows "distinct (map g (List.map_filter f xs))"
  using assms
proof (induction xs)
  case Nil
  then show ?case by simp
next
  case (Cons x xs)
  then have IH: "distinct (map g (List.map_filter f xs))" by simp
  show ?case
  proof (cases "f x")
    case None
    with IH show ?thesis by simp
  next
    case (Some y)
    have "g y \<notin> g ` set (List.map_filter f xs)"
    proof
      assume "g y \<in> g ` set (List.map_filter f xs)"
      then obtain z where z: "z \<in> set (List.map_filter f xs)" and e: "g y = g z" by blast
      from z obtain w where w: "w \<in> set xs" "f w = Some z" by (auto simp: map_filter_mem)
      from Cons.prems(1)[of w z] w have "g z = h w" by simp
      moreover from Cons.prems(1)[of x y] Some have "g y = h x" by simp
      ultimately have "h x = h w" using e by simp
      with w(1) Cons.prems(2) show False by auto
    qed
    with IH Some show ?thesis by simp
  qed
qed

lemma decision_hash:
  assumes "decision env minD minC d = Some fd"
  shows "generateDealHash f fd = generateDealHash f d"
  using decision_truncate[OF assms] generateDealHash_truncate[of f fd] by simp

lemma distinct_map_sort_take:
  assumes "distinct (map g xs)"
  shows "distinct (map g (take k (sort_key f xs)))"
proof -
  from assms have "distinct xs" "inj_on g (set xs)" by (simp_all add: distinct_map)
  then have "distinct (map g (sort_key f xs))" by (simp add: distinct_map)
  then have "distinct (take k (map g (sort_key f xs)))" by (rule distinct_take)
  then show ?thesis by (simp add: take_map)
qed

lemma filterDeals_distinct:
  "distinct (map (generateDealHash (numToString env))
     (fst (filterDeals env seen deals minD minC maxR)))"
proof -
  let ?h = "generateDealHash (numToString env)"
  let ?fresh = "freshDeals ?h seen deals"
  have "distinct (map ?h (List.map_filter (decision env minD minC) ?fresh))"
  proof (rule distinct_map_filter)
    show "distinct (map ?h ?fresh)" by (rule freshDeals_distinct)
  next
    fix x y
    assume "decision env minD minC x = Some y"
    then show "?h y = ?h x" by (rule decision_hash)
  qed
  moreover obtain k where "slice0 (sortDeals (List.map_filter (decision env minD minC) ?fresh)) maxR
     = take k (sortDeals (List.map_filter (decision env minD minC) ?fresh))"
    using slice0_take by blast
  ultimately show ?thesis
    by (simp add: filterDeals_fst sortDeals_def distinct_map_sort_take)
qed

lemma filterDeals_unseen:
  assumes "fd \<in> set (fst (filterDeals env seen deals minD minC maxR))"
  shows "generateDealHash (numToString env) fd \<notin> seen"
proof -
  from filterDeals_mem[OF assms] obtain d where
    "generateDealHash (numToString env) d \<notin> seen" "decision env minD minC d = Some fd"
    by blast
  with decision_hash[of env minD minC d fd "numToString env"] show ?thesis by simp
qed

text \<open>
  C7. Two deals with the same site, the same current price and titles equal after
  lowercasing and trimming have the same hash. A deal whose hash is in \<open>seenDeals\<close> is
  skipped by the loop body: nothing is pushed and the state is unchanged. The hashes of
  the deals of an output are pairwise distinct and none of them was seen before the run;
  the set after the run holds the hashes of all deals of the run, so a later run on the
  same service returns none of them again.
\<close>

theorem dedup_identity:
  "(site a = site b \<and> currentPrice a = currentPrice b
      \<and> trim (toLowerCase (title a)) = trim (toLowerCase (title b))
      \<longrightarrow> generateDealHash f a = generateDealHash f b)
   \<and> (generateDealHash (numToString env) d \<in> seen
        \<longrightarrow> processDeal env minD minC seen d = (None, seen))
   \<and> distinct (map (generateDealHash (numToString env))
        (fst (filterDeals env seen deals minD minC maxR)))
   \<and> (\<forall>fd \<in> set (fst (filterDeals env seen deals minD minC maxR)).
         generateDealHash (numToString env) fd \<notin> seen)
   \<and> snd (filterDeals env seen deals minD minC maxR)
       = seen \<union> generateDealHash (numToString env) ` set deals"
proof (intro conjI impI ballI)
  assume "site a = site b \<and> currentPrice a = currentPrice b
      \<and> trim (toLowerCase (title a)) = trim (toLowerCase (title b))"
  then show "generateDealHash f a = generateDealHash f b"
    by (simp add: generateDealHash_def dealKey_def)
next
  assume "generateDealHash (numToString env) d \<in> seen"
  then show "processDeal env minD minC seen d = (None, seen)"
    by (rule processDeal_seen)
next
  show "distinct (map (generateDealHash (numToString env))
        (fst (filterDeals env seen deals minD minC maxR)))"
    by (rule filterDeals_distinct)
next
  fix fd
  assume "fd \<in> set (fst (filterDeals env seen deals minD minC maxR))"
  then show "generateDealHash (numToString env) fd \<notin> seen"
    by (rule filterDeals_unseen)
next
  show "snd (filterDeals env seen deals minD minC maxR)
       = seen \<union> generateDealHash (numToString env) ` set deals"
    by (rule filterDeals_snd)
qed

text \<open>
  The theorem at two lamps whose titles differ in case and surrounding spaces only.
\<close>

theorem dedup_identity_witness:
  "title (exampleDeal ''  Desk Lamp With Shade '' (Some 100) 5 95)
     \<noteq> title (exampleDeal ''desk lamp with shade'' (Some 100) 5 95)
   \<and> generateDealHash centsToString (exampleDeal ''  Desk Lamp With Shade '' (Some 100) 5 95)
       = generateDealHash centsToString (exampleDeal ''desk lamp with shade'' (Some 100) 5 95)
   \<and> processDeal (exampleEnv glitchAnswer glitchVerdict) 90 60
        (snd (processDeal (exampleEnv glitchAnswer glitchVerdict) 90 60 {}
               (exampleDeal ''  Desk Lamp With Shade '' (Some 100) 5 95)))
        (exampleDeal ''desk lamp with shade'' (Some 100) 5 95)
       = (None, snd (processDeal (exampleEnv glitchAnswer glitchVerdict) 90 60 {}
               (exampleDeal ''  Desk Lamp With Shade '' (Some 100) 5 95)))
   \<and> length (fst (filterDeals (exampleEnv glitchAnswer glitchVerdict) {}
        [exampleDeal ''  Desk Lamp With Shade '' (Some 100) 5 95,
         exampleDeal ''desk lamp with shade'' (Some 100) 5 95] 90 60 50)) = 1"
proof -
  let ?env = "exampleEnv glitchAnswer glitchVerdict"
  let ?a = "exampleDeal ''  Desk Lamp With Shade '' (Some 100) 5 95"
  let ?b = "exampleDeal ''desk lamp with shade'' (Some 100) 5 95"
  let ?seen = "snd (processDeal ?env 90 60 {} ?a)"
  have same: "site ?a = site ?b \<and> currentPrice ?a = currentPrice ?b
      \<and> trim (toLowerCase (title ?a)) = trim (toLowerCase (title ?b))"
    by code_simp
  have seen: "generateDealHash (numToString ?env) ?b \<in> ?seen"
    by code_simp
  have differ: "title ?a \<noteq> title ?b"
    by code_simp
  have one: "length (fst (filterDeals ?env {} [?a, ?b] 90 60 50)) = 1"
    by code_simp
  from dedup_identity[where a = ?a and b = ?b and f = centsToString and env = ?env
      and d = ?b and seen = ?seen and minD = 90 and minC = 60 and deals = "[?a, ?b]"
      and maxR = 50] same seen
  have "generateDealHash centsToString ?a = generateDealHash centsToString ?b"
    and "processDeal ?env 90 60 ?seen ?b = (None, ?seen)"
    by blast+
  with differ one show ?thesis by simp
qed

lemma headphones_hash:
  "generateDealHash f (exampleDeal ''Wireless Headphones Black'' (Some 100) 5 95)
     = ''QW1hem9uLXdpcmVsZXNzIGhlYWRwaG9u''"
  "generateDealHash f (exampleDeal ''Wireless Headphones White'' (Some 100) 5 95)
     = ''QW1hem9uLXdpcmVsZXNzIGhlYWRwaG9u''"
  by (simp_all add: generateDealHash_def dealKey_def exampleDeal_def utf8_def toLowerCase_def
      toLowerCaseChar_def trim_def isSpace_def b64_def)

lemma filterDeals_collision:
  assumes "generateDealHash (numToString env) a = generateDealHash (numToString env) b"
  shows "filterDeals env seen [a, b] minD minC maxR = filterDeals env seen [a] minD minC maxR"
proof -
  obtain r s where p: "processDeal env minD minC seen a = (r, s)"
    by (cases "processDeal env minD minC seen a")
  with processDeal_snd[of env minD minC seen a]
  have "s = insert (generateDealHash (numToString env) a) seen" by simp
  with assms have "generateDealHash (numToString env) b \<in> s" by simp
  then have q: "processDeal env minD minC s b = (None, s)" by (rule processDeal_seen)
  show ?thesis by (cases r) (simp_all add: filterDeals_def p q)
qed

text \<open>
  C10. The hash depends on the first 24 bytes of the key only. Two headphones of the same
  site whose titles differ in the colour, beyond the 24th byte of the key, have the same
  hash, and a run over both returns what a run over the first alone returns, whatever the
  runtime, the state and the thresholds are: the second is dropped as a duplicate. With
  the example runtime the second alone is accepted; after the first it is not.
\<close>

theorem hash_truncation_collision:
  "generateDealHash f d = take 32 (base64 (take 24 (utf8 (dealKey f d))))
   \<and> title (exampleDeal ''Wireless Headphones Black'' (Some 100) 5 95)
       \<noteq> title (exampleDeal ''Wireless Headphones White'' (Some 100) 5 95)
   \<and> generateDealHash f (exampleDeal ''Wireless Headphones Black'' (Some 100) 5 95)
       = generateDealHash f (exampleDeal ''Wireless Headphones White'' (Some 100) 5 95)
   \<and> filterDeals env seen
        [exampleDeal ''Wireless Headphones Black'' (Some 100) 5 95,
         exampleDeal ''Wireless Headphones White'' (Some 100) 5 95] minD minC maxR
       = filterDeals env seen
           [exampleDeal ''Wireless Headphones Black'' (Some 100) 5 95] minD minC maxR
   \<and> map title (fst (filterDeals (exampleEnv glitchAnswer glitchVerdict) {}
        [exampleDeal ''Wireless Headphones White'' (Some 100) 5 95] 90 60 50))
       = [''Wireless Headphones White'']
   \<and> map title (fst (filterDeals (exampleEnv glitchAnswer glitchVerdict) {}
        [exampleDeal ''Wireless Headphones Black'' (Some 100) 5 95,
         exampleDeal ''Wireless Headphones White'' (Some 100) 5 95] 90 60 50))
       = [''Wireless Headphones Black'']"
proof -
  have differ: "title (exampleDeal ''Wireless Headphones Black'' (Some 100) 5 95)
       \<noteq> title (exampleDeal ''Wireless Headphones White'' (Some 100) 5 95)"
    by (simp add: exampleDeal_def)
  have alone: "map title (fst (filterDeals (exampleEnv glitchAnswer glitchVerdict) {}
        [exampleDeal ''Wireless Headphones White'' (Some 100) 5 95] 90 60 50))
       = [''Wireless Headphones White'']"
    by code_simp
  have both: "map title (fst (filterDeals (exampleEnv glitchAnswer glitchVerdict) {}
        [exampleDeal ''Wireless Headphones Black'' (Some 100) 5 95,
         exampleDeal ''Wireless Headphones White'' (Some 100) 5 95] 90 60 50))
       = [''Wireless Headphones Black'']"
    by code_simp
  show ?thesis
    using generateDealHash_prefix[of f d] differ alone both
      filterDeals_collision[of env "exampleDeal ''Wireless Headphones Black'' (Some 100) 5 95"
        "exampleDeal ''Wireless Headphones White'' (Some 100) 5 95" seen minD minC maxR]
    by (simp add: headphones_hash)
qed

section \<open>Properties of the AI response parser\<close>

























end
